theory Spec2Isabelle
  imports Main
begin

section \<open>Values the controller handles\<close>

text \<open>
  The handlers of \<^verbatim>\<open>src/controller/auth.controller.js\<close> are Express middlewares
  \<^verbatim>\<open>(req, res, next)\<close>. What a handler does is visible only through its effects: the
  calls it makes on \<^verbatim>\<open>res\<close>, on \<^verbatim>\<open>next\<close>, on the console and on its collaborators.
  A handler is therefore embedded as a function that returns the list of these effects
  in program order, together with the token store it leaves behind.
\<close>

text \<open>
  The status constants are imported from \<^verbatim>\<open>../constants/index.js\<close>; the controller only
  passes them on by name, so they are kept as names.
\<close>

datatype status_const = BAD_REQUEST | INTERNAL_SERVER | UN_AUTHORIZED

text \<open>\<^verbatim>\<open>new AppError(message, statusCode)\<close>\<close>

datatype app_error = AppError string status_const

text \<open>A value thrown by a collaborator and caught by a handler's \<^verbatim>\<open>catch\<close>.\<close>

datatype thrown = Thrown string

text \<open>The JavaScript values that occur in a cookie options object.\<close>

datatype jsval = JNum int | JBool bool | JStr string

type_synonym cookie_options = "(string \<times> jsval) list"

type_synonym body = "(string \<times> string) list"

text \<open>The \<^verbatim>\<open>role\<close> enum of the Prisma schema.\<close>

datatype role = super_admin | admin | voter

text \<open>
  The fields of a user the login handler reads: \<^verbatim>\<open>user._id\<close>, \<^verbatim>\<open>user.id\<close>,
  \<^verbatim>\<open>user.email\<close>, \<^verbatim>\<open>user.role\<close>, \<^verbatim>\<open>user.password\<close> (nullable in the schema).
\<close>

record user =
  user__id :: nat
  user_id :: nat
  user_email :: string
  user_role :: role
  user_password :: "string option"

text \<open>The object given to \<^verbatim>\<open>generateTokenSet\<close> and returned by \<^verbatim>\<open>extractUser\<close>.\<close>

record token_payload =
  payload_id :: nat
  payload_email :: string
  payload_role :: role

record token_set =
  accessToken :: string
  refreshToken :: string

text \<open>\<^verbatim>\<open>env.jwt.refreshExpirationDays\<close>, \<^verbatim>\<open>env.jwt.refresh_secret\<close>, \<^verbatim>\<open>env.env\<close>\<close>

record env =
  jwt_refreshExpirationDays :: int
  jwt_refresh_secret :: string
  env_env :: string

text \<open>\<^verbatim>\<open>req.body\<close> and \<^verbatim>\<open>req.cookies.refreshToken\<close> (\<open>None\<close> is \<^verbatim>\<open>undefined\<close>).\<close>

record request =
  req_body :: body
  cookies_refreshToken :: "string option"

text \<open>
  The effects of a handler, in program order. \<open>Call\<close> records the invocation of a
  collaborator, \<open>HandleRefreshTokenError\<close> the delegation
  \<^verbatim>\<open>return handleRefreshTokenError(error, req, res)\<close>.

  Modelled from the spec: \<^verbatim>\<open>handleRefreshTokenError\<close> is in \<^verbatim>\<open>../utils/auth.js\<close>, which
  is not among the sources. Section 7 surfaces a token error as unauthorized with the
  cookie cleared and gives it no effect on the Token Store, so a handler that ends in
  this event leaves the store as it was when the error was thrown.
\<close>

datatype event =
    Call string
  | ConsoleLog string string
  | ConsoleLogError thrown
  | ClearCookie string
  | Cookie string string cookie_options
  | StatusSend nat "(string \<times> string) list"
  | SendStatus nat
  | Next app_error
  | HandleRefreshTokenError thrown

section \<open>Collaborators\<close>

text \<open>
  The functions the controller imports. Those that do not touch the token store are
  parameters of a handler call: the outcome they have for that request. Each may throw.
\<close>

record collaborators =
  loginSchema_parse :: "body \<Rightarrow> thrown + (string \<times> string)"
  getUserByEmail :: "string \<Rightarrow> thrown + user option"
  checkPassword :: "string \<Rightarrow> string option \<Rightarrow> thrown + bool"
  generateTokenSet :: "token_payload \<Rightarrow> thrown + token_set"
  extractUser :: "string \<Rightarrow> string \<Rightarrow> thrown + token_payload"

text \<open>
  The functions that read and write the token store \<open>'s\<close>. Each returns its result (or
  what it threw) and the store afterwards. \<^verbatim>\<open>refreshTokenReuseDetection\<close> is also handed
  \<^verbatim>\<open>res\<close>, so it returns the effects it had on the response as well. The value
  \<^verbatim>\<open>replaceRefreshTokenUser\<close> resolves to is only tested for truthiness.
\<close>

record 's token_services =
  assignRefreshToken :: "'s \<Rightarrow> nat \<Rightarrow> string \<Rightarrow> (thrown + unit) \<times> 's"
  refreshTokenReuseDetection ::
    "'s \<Rightarrow> token_payload \<Rightarrow> string \<Rightarrow> (thrown + bool) \<times> event list \<times> 's"
  replaceRefreshTokenUser :: "'s \<Rightarrow> nat \<Rightarrow> string \<Rightarrow> string \<Rightarrow> (thrown + bool) \<times> 's"
  removeRefreshTokenUser :: "'s \<Rightarrow> nat \<Rightarrow> string \<Rightarrow> (thrown + unit) \<times> 's"

section \<open>The handlers\<close>

text \<open>
  The options object both \<^verbatim>\<open>res.cookie('refreshToken', ...)\<close> calls build
  (lines 94-99 and 140-145). The last key is spelled \<^verbatim>\<open>samesite\<close> in the source.
\<close>

definition cookieOptions :: "env \<Rightarrow> cookie_options" where
  "cookieOptions e =
     [(''maxAge'', JNum (jwt_refreshExpirationDays e * 24 * 60 * 60 * 1000)),
      (''secure'', JBool (if env_env e = ''PRODUCTION'' then True else False)),
      (''httpOnly'', JBool True),
      (''samesite'', JStr ''none'')]"

text \<open>The \<^verbatim>\<open>catch\<close> block of \<^verbatim>\<open>loginUser\<close> (lines 105-108).\<close>

definition loginUser_catch :: "thrown \<Rightarrow> event list" where
  "loginUser_catch error =
     [ConsoleLogError error, Next (AppError ''Something went wrong'' INTERNAL_SERVER)]"

definition loginUser ::
  "collaborators \<Rightarrow> 's token_services \<Rightarrow> env \<Rightarrow> request \<Rightarrow> 's \<Rightarrow> event list \<times> 's" where
  "loginUser co sv e req s =
     (case loginSchema_parse co (req_body req) of
        Inl error \<Rightarrow> (Call ''loginSchema.parse'' # loginUser_catch error, s)
      | Inr (email, password) \<Rightarrow>
          (let t1 = [Call ''loginSchema.parse'', ConsoleLog ''email'' email,
                     ConsoleLog ''password'' password, Call ''getUserByEmail'']
           in case getUserByEmail co email of
                Inl error \<Rightarrow> (t1 @ loginUser_catch error, s)
              | Inr None \<Rightarrow> (t1 @ [Next (AppError ''User does not exist'' BAD_REQUEST)], s)
              | Inr (Some user) \<Rightarrow>
                  (let t2 = t1 @ [Call ''checkPassword'']
                   in case checkPassword co password (user_password user) of
                        Inl error \<Rightarrow> (t2 @ loginUser_catch error, s)
                      | Inr False \<Rightarrow>
                          (t2 @ [Next (AppError ''Email or Password is incorrect'' BAD_REQUEST)], s)
                      | Inr True \<Rightarrow>
                          (let t3 = t2 @ [Call ''generateTokenSet'']
                           in case generateTokenSet co
                                     \<lparr>payload_id = user_id user, payload_email = user_email user,
                                      payload_role = user_role user\<rparr> of
                                Inl error \<Rightarrow> (t3 @ loginUser_catch error, s)
                              | Inr ts \<Rightarrow>
                                  (let t4 = t3 @ [Call ''assignRefreshToken'']
                                   in case assignRefreshToken sv s (user__id user) (refreshToken ts) of
                                        (Inl error, s') \<Rightarrow> (t4 @ loginUser_catch error, s')
                                      | (Inr _, s') \<Rightarrow>
                                          (t4 @ [Cookie ''refreshToken'' (refreshToken ts) (cookieOptions e),
                                                 StatusSend 200
                                                   [(''accessToken'', accessToken ts),
                                                    (''message'', ''Logged In Successfully!'')]],
                                           s'))))))"

text \<open>
  \<^verbatim>\<open>!refreshToken\<close>: the cookie is missing (\<^verbatim>\<open>undefined\<close>) or the empty string.
\<close>

fun falsy_token :: "string option \<Rightarrow> bool" where
  "falsy_token None = True"
| "falsy_token (Some t) = (t = [])"

text \<open>
  \<^verbatim>\<open>refreshTokenSets\<close> (lines 111-154). When \<^verbatim>\<open>updatedRefreshToken\<close> is falsy the
  \<^verbatim>\<open>if\<close> has no \<^verbatim>\<open>else\<close>: the function ends without a further effect.
\<close>

definition refreshTokenSets ::
  "collaborators \<Rightarrow> 's token_services \<Rightarrow> env \<Rightarrow> request \<Rightarrow> 's \<Rightarrow> event list \<times> 's" where
  "refreshTokenSets co sv e req s =
     (if falsy_token (cookies_refreshToken req)
      then ([ClearCookie ''refreshToken'',
             Next (AppError ''No refresh token found'' UN_AUTHORIZED)], s)
      else
        (let token = the (cookies_refreshToken req);
             t1 = [Call ''extractUser'']
         in case extractUser co token (jwt_refresh_secret e) of
              Inl error \<Rightarrow> (t1 @ [HandleRefreshTokenError error], s)
            | Inr decodedUser \<Rightarrow>
                (case refreshTokenReuseDetection sv s decodedUser token of
                   (Inl error, evs, s1) \<Rightarrow>
                     (t1 @ Call ''refreshTokenReuseDetection'' # evs @
                        [HandleRefreshTokenError error], s1)
                 | (Inr True, evs, s1) \<Rightarrow>
                     (t1 @ Call ''refreshTokenReuseDetection'' # evs @
                        [Next (AppError ''Potential breach detected'' UN_AUTHORIZED)], s1)
                 | (Inr False, evs, s1) \<Rightarrow>
                     (let t2 = t1 @ Call ''refreshTokenReuseDetection'' # evs @
                                 [Call ''generateTokenSet'']
                      in case generateTokenSet co
                                \<lparr>payload_id = payload_id decodedUser,
                                 payload_email = payload_email decodedUser,
                                 payload_role = payload_role decodedUser\<rparr> of
                           Inl error \<Rightarrow> (t2 @ [HandleRefreshTokenError error], s1)
                         | Inr tokenSet \<Rightarrow>
                             (let t3 = t2 @ [Call ''replaceRefreshTokenUser'']
                              in case replaceRefreshTokenUser sv s1 (payload_id decodedUser) token
                                        (refreshToken tokenSet) of
                                   (Inl error, s2) \<Rightarrow> (t3 @ [HandleRefreshTokenError error], s2)
                                 | (Inr True, s2) \<Rightarrow>
                                     (t3 @ [Cookie ''refreshToken'' (refreshToken tokenSet)
                                              (cookieOptions e),
                                            StatusSend 201
                                              [(''accessToken'', accessToken tokenSet)]], s2)
                                 | (Inr False, s2) \<Rightarrow> (t3, s2))))))"

text \<open>\<^verbatim>\<open>logOut\<close> (lines 156-177).\<close>

definition logOut ::
  "collaborators \<Rightarrow> 's token_services \<Rightarrow> env \<Rightarrow> request \<Rightarrow> 's \<Rightarrow> event list \<times> 's" where
  "logOut co sv e req s =
     (let t0 = [ClearCookie ''refreshToken'']
      in if falsy_token (cookies_refreshToken req)
         then (t0 @ [Next (AppError ''No Refresh Token Found'' UN_AUTHORIZED)], s)
         else
           (let token = the (cookies_refreshToken req);
                t1 = t0 @ [Call ''extractUser'']
            in case extractUser co token (jwt_refresh_secret e) of
                 Inl error \<Rightarrow> (t1 @ [HandleRefreshTokenError error], s)
               | Inr decodedUser \<Rightarrow>
                   (case refreshTokenReuseDetection sv s decodedUser token of
                      (Inl error, evs, s1) \<Rightarrow>
                        (t1 @ Call ''refreshTokenReuseDetection'' # evs @
                           [HandleRefreshTokenError error], s1)
                    | (Inr True, evs, s1) \<Rightarrow>
                        (t1 @ Call ''refreshTokenReuseDetection'' # evs @
                           [Next (AppError ''Potential breach detected'' UN_AUTHORIZED)], s1)
                    | (Inr False, evs, s1) \<Rightarrow>
                        (let t2 = t1 @ Call ''refreshTokenReuseDetection'' # evs @
                                    [Call ''removeRefreshTokenUser'']
                         in case removeRefreshTokenUser sv s1 (payload_id decodedUser) token of
                              (Inl error, s2) \<Rightarrow> (t2 @ [HandleRefreshTokenError error], s2)
                            | (Inr _, s2) \<Rightarrow> (t2 @ [SendStatus 204], s2)))))"

subsection \<open>The awaits of \<^verbatim>\<open>refreshTokenSets\<close>\<close>

text \<open>
  \<^verbatim>\<open>refreshTokenSets\<close> suspends twice on the store: at
  \<^verbatim>\<open>await refreshTokenReuseDetection(..)\<close> (line 123) and at
  \<^verbatim>\<open>await replaceRefreshTokenUser(..)\<close> (line 134). Between the two, other requests can
  run. The first part of the handler runs lines 113-126: it either ends the request
  (\<open>Inl\<close>, with the trace) or, when the detector returned false, is left pending with
  \<^verbatim>\<open>decodedUser\<close>, the token and the trace so far (\<open>Inr\<close>). Each store function is taken
  as one indivisible step.
\<close>

definition refreshTokenSets_until_detection ::
  "collaborators \<Rightarrow> 's token_services \<Rightarrow> env \<Rightarrow> request \<Rightarrow> 's \<Rightarrow>
   (event list + token_payload \<times> string \<times> event list) \<times> 's" where
  "refreshTokenSets_until_detection co sv e req s =
     (if falsy_token (cookies_refreshToken req)
      then (Inl [ClearCookie ''refreshToken'',
                 Next (AppError ''No refresh token found'' UN_AUTHORIZED)], s)
      else
        (let token = the (cookies_refreshToken req);
             t1 = [Call ''extractUser'']
         in case extractUser co token (jwt_refresh_secret e) of
              Inl error \<Rightarrow> (Inl (t1 @ [HandleRefreshTokenError error]), s)
            | Inr decodedUser \<Rightarrow>
                (case refreshTokenReuseDetection sv s decodedUser token of
                   (Inl error, evs, s1) \<Rightarrow>
                     (Inl (t1 @ Call ''refreshTokenReuseDetection'' # evs @
                             [HandleRefreshTokenError error]), s1)
                 | (Inr True, evs, s1) \<Rightarrow>
                     (Inl (t1 @ Call ''refreshTokenReuseDetection'' # evs @
                             [Next (AppError ''Potential breach detected'' UN_AUTHORIZED)]), s1)
                 | (Inr False, evs, s1) \<Rightarrow>
                     (Inr (decodedUser, token, t1 @ Call ''refreshTokenReuseDetection'' # evs),
                      s1))))"

text \<open>
  The second part runs lines 128-150 on the store as it is when the handler resumes.
\<close>

definition refreshTokenSets_after_detection ::
  "collaborators \<Rightarrow> 's token_services \<Rightarrow> env \<Rightarrow> token_payload \<times> string \<times> event list \<Rightarrow> 's \<Rightarrow>
   event list \<times> 's" where
  "refreshTokenSets_after_detection co sv e pending s1 =
     (case pending of
        (decodedUser, token, tr) \<Rightarrow>
          (let t2 = tr @ [Call ''generateTokenSet'']
           in case generateTokenSet co
                     \<lparr>payload_id = payload_id decodedUser,
                      payload_email = payload_email decodedUser,
                      payload_role = payload_role decodedUser\<rparr> of
                Inl error \<Rightarrow> (t2 @ [HandleRefreshTokenError error], s1)
              | Inr tokenSet \<Rightarrow>
                  (let t3 = t2 @ [Call ''replaceRefreshTokenUser'']
                   in case replaceRefreshTokenUser sv s1 (payload_id decodedUser) token
                             (refreshToken tokenSet) of
                        (Inl error, s2) \<Rightarrow> (t3 @ [HandleRefreshTokenError error], s2)
                      | (Inr True, s2) \<Rightarrow>
                          (t3 @ [Cookie ''refreshToken'' (refreshToken tokenSet)
                                   (cookieOptions e),
                                 StatusSend 201
                                   [(''accessToken'', accessToken tokenSet)]], s2)
                      | (Inr False, s2) \<Rightarrow> (t3, s2))))"

definition resume ::
  "collaborators \<Rightarrow> 's token_services \<Rightarrow> env \<Rightarrow>
   event list + token_payload \<times> string \<times> event list \<Rightarrow> 's \<Rightarrow> event list \<times> 's" where
  "resume co sv e r s =
     (case r of Inl tr \<Rightarrow> (tr, s) | Inr pending \<Rightarrow> refreshTokenSets_after_detection co sv e pending s)"


section \<open>What the framework makes of the calls\<close>

text \<open>
  Express is not part of the repository. \<^verbatim>\<open>res.cookie(name, value, options)\<close> reads the
  option keys \<^verbatim>\<open>maxAge\<close> (milliseconds, sent as \<^verbatim>\<open>Max-Age = Math.floor(maxAge / 1000)\<close>),
  \<^verbatim>\<open>path\<close> (default \<^verbatim>\<open>/\<close>), \<^verbatim>\<open>httpOnly\<close>, \<^verbatim>\<open>secure\<close> and \<^verbatim>\<open>sameSite\<close>; keys of a
  JavaScript object are case sensitive, and a key it does not know is ignored. The
  \<^verbatim>\<open>Expires\<close> attribute it derives from the clock is left out.
\<close>

datatype cookie_attr = Max_Age int | Path string | HttpOnly | Secure | SameSite string

fun truthy :: "jsval \<Rightarrow> bool" where
  "truthy (JBool b) = b"
| "truthy (JNum n) = (n \<noteq> 0)"
| "truthy (JStr v) = (v \<noteq> [])"

definition res_cookie_attrs :: "cookie_options \<Rightarrow> cookie_attr list" where
  "res_cookie_attrs opts =
     (case map_of opts ''maxAge'' of Some (JNum ms) \<Rightarrow> [Max_Age (ms div 1000)] | _ \<Rightarrow> []) @
     (case map_of opts ''path'' of Some (JStr p) \<Rightarrow> [Path p] | _ \<Rightarrow> [Path ''/'']) @
     (case map_of opts ''httpOnly'' of Some v \<Rightarrow> (if truthy v then [HttpOnly] else []) | None \<Rightarrow> []) @
     (case map_of opts ''secure'' of Some v \<Rightarrow> (if truthy v then [Secure] else []) | None \<Rightarrow> []) @
     (case map_of opts ''sameSite'' of Some (JStr v) \<Rightarrow> [SameSite v] | _ \<Rightarrow> [])"

fun is_SameSite :: "cookie_attr \<Rightarrow> bool" where
  "is_SameSite (SameSite v) = True"
| "is_SameSite _ = False"

text \<open>
  Modelled from the spec: \<^verbatim>\<open>../constants/index.js\<close> is not among the sources. Section 6
  gives 400 for a failed login and 401 for a failed refresh or logout;
  \<^verbatim>\<open>INTERNAL_SERVER\<close> is the name of HTTP status 500.
\<close>

fun statusCode :: "status_const \<Rightarrow> nat" where
  "statusCode BAD_REQUEST = 400"
| "statusCode UN_AUTHORIZED = 401"
| "statusCode INTERNAL_SERVER = 500"

text \<open>Reading a trace: the errors handed to \<^verbatim>\<open>next\<close>, the console lines, the replies.\<close>

fun next_errors :: "event list \<Rightarrow> app_error list" where
  "next_errors [] = []"
| "next_errors (Next err # evs) = err # next_errors evs"
| "next_errors (_ # evs) = next_errors evs"

fun console_lines :: "event list \<Rightarrow> (string \<times> string) list" where
  "console_lines [] = []"
| "console_lines (ConsoleLog label v # evs) = (label, v) # console_lines evs"
| "console_lines (_ # evs) = console_lines evs"

text \<open>A reply sent by the handler: \<^verbatim>\<open>res.status(..).send(..)\<close> or \<^verbatim>\<open>res.sendStatus(..)\<close>.\<close>

fun is_send :: "event \<Rightarrow> bool" where
  "is_send (StatusSend c b) = True"
| "is_send (SendStatus c) = True"
| "is_send _ = False"

text \<open>An error path: \<^verbatim>\<open>next(new AppError(..))\<close> or \<^verbatim>\<open>handleRefreshTokenError(..)\<close>.\<close>

fun is_error :: "event \<Rightarrow> bool" where
  "is_error (Next err) = True"
| "is_error (HandleRefreshTokenError x) = True"
| "is_error _ = False"

section \<open>The refresh-token table\<close>



section \<open>Concrete requests\<close>

text \<open>A production configuration with a refresh lifetime of seven days.\<close>

definition sample_env :: env where
  "sample_env =
     \<lparr>jwt_refreshExpirationDays = 7, jwt_refresh_secret = ''s3cret'', env_env = ''PRODUCTION''\<rparr>"

definition alice :: user where
  "alice =
     \<lparr>user__id = 1, user_id = 1, user_email = ''alice@example.com'', user_role = voter,
      user_password = Some ''hash(wonderland)''\<rparr>"

definition alice_payload :: token_payload where
  "alice_payload =
     \<lparr>payload_id = 1, payload_email = ''alice@example.com'', payload_role = voter\<rparr>"

text \<open>
  Collaborators for one request: the schema wants both fields, alice is the only user,
  the signer hands out the pair \<open>A1\<close>, \<open>R1\<close>, and the tokens \<open>R0\<close> and \<open>R1\<close> verify.
\<close>

definition sample_co :: collaborators where
  "sample_co =
     \<lparr>loginSchema_parse =
        (\<lambda>b. case (map_of b ''email'', map_of b ''password'') of
                (Some em, Some pw) \<Rightarrow> Inr (em, pw)
              | _ \<Rightarrow> Inl (Thrown ''ZodError'')),
      getUserByEmail = (\<lambda>em. Inr (if em = ''alice@example.com'' then Some alice else None)),
      checkPassword = (\<lambda>pw h. Inr (h = Some (''hash('' @ pw @ '')''))),
      generateTokenSet = (\<lambda>p. Inr \<lparr>accessToken = ''A1'', refreshToken = ''R1''\<rparr>),
      extractUser =
        (\<lambda>tok secret. if tok = ''R0'' \<or> tok = ''R1'' then Inr alice_payload
                       else Inl (Thrown ''JsonWebTokenError''))\<rparr>"


text \<open>The same collaborators, with a signer that hands out the pair \<open>A2\<close>, \<open>R2\<close>.\<close>

definition later_co :: collaborators where
  "later_co =
     sample_co\<lparr>generateTokenSet := (\<lambda>p. Inr \<lparr>accessToken = ''A2'', refreshToken = ''R2''\<rparr>)\<rparr>"

definition good_login :: request where
  "good_login =
     \<lparr>req_body = [(''email'', ''alice@example.com''), (''password'', ''wonderland'')],
      cookies_refreshToken = None\<rparr>"

definition wrong_password_login :: request where
  "wrong_password_login =
     \<lparr>req_body = [(''email'', ''alice@example.com''), (''password'', ''looking-glass'')],
      cookies_refreshToken = None\<rparr>"

definition unknown_email_login :: request where
  "unknown_email_login =
     \<lparr>req_body = [(''email'', ''bob@example.com''), (''password'', ''wonderland'')],
      cookies_refreshToken = None\<rparr>"

definition malformed_login :: request where
  "malformed_login = \<lparr>req_body = [(''email'', ''alice@example.com'')], cookies_refreshToken = None\<rparr>"

definition with_cookie :: "string \<Rightarrow> request" where
  "with_cookie t = \<lparr>req_body = [], cookies_refreshToken = Some t\<rparr>"

definition no_cookie :: request where
  "no_cookie = \<lparr>req_body = [], cookies_refreshToken = None\<rparr>"

text \<open>
  Store functions over a store without content, for a request in which the detector lets
  the token pass and the update then resolves to a falsy value (no row matched), and
  for one in which it resolves to a truthy value.
\<close>

definition no_row_services :: "unit token_services" where
  "no_row_services =
     \<lparr>assignRefreshToken = (\<lambda>s uid tok. (Inr (), s)),
      refreshTokenReuseDetection = (\<lambda>s decodedUser tok. (Inr False, [], s)),
      replaceRefreshTokenUser = (\<lambda>s uid old new. (Inr False, s)),
      removeRefreshTokenUser = (\<lambda>s uid tok. (Inr (), s))\<rparr>"

definition one_row_services :: "unit token_services" where
  "one_row_services = no_row_services\<lparr>replaceRefreshTokenUser := (\<lambda>s uid old new. (Inr True, s))\<rparr>"








section \<open>Paths through the handlers\<close>

lemma loginUser_parse_throws:
  "loginSchema_parse co (req_body req) = Inl error \<Longrightarrow>
   loginUser co sv e req s =
     ([Call ''loginSchema.parse'', ConsoleLogError error,
       Next (AppError ''Something went wrong'' INTERNAL_SERVER)], s)"
  by (simp add: loginUser_def loginUser_catch_def)

lemma loginUser_unknown_email:
  "loginSchema_parse co (req_body req) = Inr (email, password) \<Longrightarrow>
   getUserByEmail co email = Inr None \<Longrightarrow>
   loginUser co sv e req s =
     ([Call ''loginSchema.parse'', ConsoleLog ''email'' email, ConsoleLog ''password'' password,
       Call ''getUserByEmail'', Next (AppError ''User does not exist'' BAD_REQUEST)], s)"
  by (simp add: loginUser_def)

lemma loginUser_wrong_password:
  "loginSchema_parse co (req_body req) = Inr (email, password) \<Longrightarrow>
   getUserByEmail co email = Inr (Some user) \<Longrightarrow>
   checkPassword co password (user_password user) = Inr False \<Longrightarrow>
   loginUser co sv e req s =
     ([Call ''loginSchema.parse'', ConsoleLog ''email'' email, ConsoleLog ''password'' password,
       Call ''getUserByEmail'', Call ''checkPassword'',
       Next (AppError ''Email or Password is incorrect'' BAD_REQUEST)], s)"
  by (simp add: loginUser_def)

lemma loginUser_success:
  "loginSchema_parse co (req_body req) = Inr (email, password) \<Longrightarrow>
   getUserByEmail co email = Inr (Some user) \<Longrightarrow>
   checkPassword co password (user_password user) = Inr True \<Longrightarrow>
   generateTokenSet co \<lparr>payload_id = user_id user, payload_email = user_email user,
                         payload_role = user_role user\<rparr> = Inr ts \<Longrightarrow>
   assignRefreshToken sv s (user__id user) (refreshToken ts) = (Inr u, s') \<Longrightarrow>
   loginUser co sv e req s =
     ([Call ''loginSchema.parse'', ConsoleLog ''email'' email, ConsoleLog ''password'' password,
       Call ''getUserByEmail'', Call ''checkPassword'', Call ''generateTokenSet'',
       Call ''assignRefreshToken'',
       Cookie ''refreshToken'' (refreshToken ts) (cookieOptions e),
       StatusSend 200 [(''accessToken'', accessToken ts),
                       (''message'', ''Logged In Successfully!'')]], s')"
  by (simp add: loginUser_def)

lemma refreshTokenSets_success:
  "cookies_refreshToken req = Some token \<Longrightarrow> token \<noteq> [] \<Longrightarrow>
   extractUser co token (jwt_refresh_secret e) = Inr decodedUser \<Longrightarrow>
   refreshTokenReuseDetection sv s decodedUser token = (Inr False, evs, s1) \<Longrightarrow>
   generateTokenSet co \<lparr>payload_id = payload_id decodedUser,
                         payload_email = payload_email decodedUser,
                         payload_role = payload_role decodedUser\<rparr> = Inr tokenSet \<Longrightarrow>
   replaceRefreshTokenUser sv s1 (payload_id decodedUser) token (refreshToken tokenSet) =
     (Inr True, s2) \<Longrightarrow>
   refreshTokenSets co sv e req s =
     ([Call ''extractUser'', Call ''refreshTokenReuseDetection''] @ evs @
      [Call ''generateTokenSet'', Call ''replaceRefreshTokenUser'',
       Cookie ''refreshToken'' (refreshToken tokenSet) (cookieOptions e),
       StatusSend 201 [(''accessToken'', accessToken tokenSet)]], s2)"
  by (simp add: refreshTokenSets_def)

lemma logOut_no_token:
  "falsy_token (cookies_refreshToken req) \<Longrightarrow>
   logOut co sv e req s =
     ([ClearCookie ''refreshToken'', Next (AppError ''No Refresh Token Found'' UN_AUTHORIZED)], s)"
  by (simp add: logOut_def)

lemma logOut_breach:
  "cookies_refreshToken req = Some token \<Longrightarrow> token \<noteq> [] \<Longrightarrow>
   extractUser co token (jwt_refresh_secret e) = Inr decodedUser \<Longrightarrow>
   refreshTokenReuseDetection sv s decodedUser token = (Inr True, evs, s1) \<Longrightarrow>
   logOut co sv e req s =
     ([ClearCookie ''refreshToken'', Call ''extractUser'', Call ''refreshTokenReuseDetection''] @
      evs @ [Next (AppError ''Potential breach detected'' UN_AUTHORIZED)], s1)"
  by (simp add: logOut_def)

text \<open>
  The cookie both handlers set, as the framework sends it: \<^verbatim>\<open>Max-Age\<close> is the
  configured number of days in seconds, \<^verbatim>\<open>HttpOnly\<close> is set, \<^verbatim>\<open>Secure\<close> is set exactly in
  production, and there is no \<^verbatim>\<open>SameSite\<close> attribute.
\<close>

lemma res_cookie_attrs_cookieOptions:
  "res_cookie_attrs (cookieOptions e) =
     [Max_Age (jwt_refreshExpirationDays e * 86400), Path ''/'', HttpOnly] @
     (if env_env e = ''PRODUCTION'' then [Secure] else [])"
  by (simp add: res_cookie_attrs_def cookieOptions_def)

lemma cookieOptions_no_SameSite: "\<not> list_ex is_SameSite (res_cookie_attrs (cookieOptions e))"
  by (simp add: res_cookie_attrs_cookieOptions)

text \<open>Where a handler can leave the store, whatever the store functions are.\<close>

lemma loginUser_store:
  "snd (loginUser co sv e req s) = s \<or>
   (\<exists>uid tok. snd (loginUser co sv e req s) = snd (assignRefreshToken sv s uid tok))"
  by (auto simp: loginUser_def Let_def split: sum.split option.split prod.split bool.split)
   (metis snd_conv)+

lemma refreshTokenSets_store:
  "snd (refreshTokenSets co sv e req s) = s \<or>
   (\<exists>du tok. snd (refreshTokenSets co sv e req s) =
       snd (snd (refreshTokenReuseDetection sv s du tok)) \<or>
     (\<exists>uid new. snd (refreshTokenSets co sv e req s) =
        snd (replaceRefreshTokenUser sv (snd (snd (refreshTokenReuseDetection sv s du tok)))
               uid tok new)))"
  by (auto simp: refreshTokenSets_def Let_def split: sum.split option.split prod.split bool.split)
   (metis snd_conv)+

lemma logOut_store:
  "snd (logOut co sv e req s) = s \<or>
   (\<exists>du tok. snd (logOut co sv e req s) =
       snd (snd (refreshTokenReuseDetection sv s du tok)) \<or>
     (\<exists>uid. snd (logOut co sv e req s) =
        snd (removeRefreshTokenUser sv (snd (snd (refreshTokenReuseDetection sv s du tok)))
               uid tok)))"
  by (auto simp: logOut_def Let_def split: sum.split option.split prod.split bool.split)
   (metis snd_conv)+



text \<open>
  Run one after the other, with nothing in between, the two parts of
  \<^verbatim>\<open>refreshTokenSets\<close> are the handler.
\<close>

lemma refreshTokenSets_split:
  "refreshTokenSets co sv e req s =
     (case refreshTokenSets_until_detection co sv e req s of
        (r, s1) \<Rightarrow> resume co sv e r s1)"
  by (simp add: refreshTokenSets_def refreshTokenSets_until_detection_def
      refreshTokenSets_after_detection_def resume_def Let_def
      split: sum.split prod.split bool.split)




section \<open>The claims\<close>

subsection \<open>C1: replaying a rotated token\<close>




subsection \<open>C2: concurrent rotation of one token\<close>




subsection \<open>C5: the attributes of the refresh-token cookie\<close>

text \<open>
  C5: every successful login and refresh sets the cookie with \<^verbatim>\<open>HttpOnly\<close>, \<^verbatim>\<open>Secure\<close> in
  production, \<^verbatim>\<open>SameSite=None\<close> and \<^verbatim>\<open>Max-Age\<close> equal to the refresh lifetime in seconds.
  A successful login and a successful refresh in production, with a lifetime of seven
  days, both pass the options \<^verbatim>\<open>maxAge\<close>, \<^verbatim>\<open>secure\<close>, \<^verbatim>\<open>httpOnly\<close> and \<^verbatim>\<open>samesite\<close>. The
  framework reads \<^verbatim>\<open>sameSite\<close>, so the cookie it sends has \<^verbatim>\<open>Max-Age=604800\<close>,
  \<^verbatim>\<open>HttpOnly\<close> and \<^verbatim>\<open>Secure\<close>, and no \<^verbatim>\<open>SameSite\<close> attribute.
\<close>

theorem refresh_cookie_lacks_SameSite:
  "fst (loginUser sample_co one_row_services sample_env good_login ()) =
     [Call ''loginSchema.parse'', ConsoleLog ''email'' ''alice@example.com'',
      ConsoleLog ''password'' ''wonderland'', Call ''getUserByEmail'', Call ''checkPassword'',
      Call ''generateTokenSet'', Call ''assignRefreshToken'',
      Cookie ''refreshToken'' ''R1'' (cookieOptions sample_env),
      StatusSend 200 [(''accessToken'', ''A1''), (''message'', ''Logged In Successfully!'')]]
   \<and> fst (refreshTokenSets later_co one_row_services sample_env (with_cookie ''R1'') ()) =
     [Call ''extractUser'', Call ''refreshTokenReuseDetection'', Call ''generateTokenSet'',
      Call ''replaceRefreshTokenUser'',
      Cookie ''refreshToken'' ''R2'' (cookieOptions sample_env),
      StatusSend 201 [(''accessToken'', ''A2'')]]
   \<and> cookieOptions sample_env =
     [(''maxAge'', JNum 604800000), (''secure'', JBool True), (''httpOnly'', JBool True),
      (''samesite'', JStr ''none'')]
   \<and> res_cookie_attrs (cookieOptions sample_env) = [Max_Age 604800, Path ''/'', HttpOnly, Secure]
   \<and> \<not> list_ex is_SameSite (res_cookie_attrs (cookieOptions sample_env))"
proof -
  have login: "fst (loginUser sample_co one_row_services sample_env good_login ()) =
     [Call ''loginSchema.parse'', ConsoleLog ''email'' ''alice@example.com'',
      ConsoleLog ''password'' ''wonderland'', Call ''getUserByEmail'', Call ''checkPassword'',
      Call ''generateTokenSet'', Call ''assignRefreshToken'',
      Cookie ''refreshToken'' ''R1'' (cookieOptions sample_env),
      StatusSend 200 [(''accessToken'', ''A1''), (''message'', ''Logged In Successfully!'')]]"
    by (simp add: loginUser_def sample_co_def good_login_def alice_def one_row_services_def
        no_row_services_def)
  have refresh:
    "fst (refreshTokenSets later_co one_row_services sample_env (with_cookie ''R1'') ()) =
     [Call ''extractUser'', Call ''refreshTokenReuseDetection'', Call ''generateTokenSet'',
      Call ''replaceRefreshTokenUser'',
      Cookie ''refreshToken'' ''R2'' (cookieOptions sample_env),
      StatusSend 201 [(''accessToken'', ''A2'')]]"
    by (simp add: refreshTokenSets_def later_co_def sample_co_def with_cookie_def
        one_row_services_def no_row_services_def)
  have opts: "cookieOptions sample_env =
     [(''maxAge'', JNum 604800000), (''secure'', JBool True), (''httpOnly'', JBool True),
      (''samesite'', JStr ''none'')]"
    by (simp add: cookieOptions_def sample_env_def)
  have attrs: "res_cookie_attrs (cookieOptions sample_env) =
     [Max_Age 604800, Path ''/'', HttpOnly, Secure]"
    by (simp add: res_cookie_attrs_cookieOptions sample_env_def)
  show ?thesis
    using login refresh opts attrs cookieOptions_no_SameSite [of sample_env] by simp
qed

subsection \<open>C6: the status of a failed login\<close>

text \<open>
  C6: every failed login, malformed body or wrong credentials, answers 400 and never a
  5xx status. For a body without a password \<^verbatim>\<open>loginSchema.parse\<close> throws, the \<^verbatim>\<open>catch\<close>
  block logs the error and hands \<^verbatim>\<open>next\<close> an error with \<^verbatim>\<open>INTERNAL_SERVER\<close>, status 500.
\<close>

theorem login_validation_error_is_internal:
  "loginUser sample_co no_row_services sample_env malformed_login () =
     ([Call ''loginSchema.parse'', ConsoleLogError (Thrown ''ZodError''),
       Next (AppError ''Something went wrong'' INTERNAL_SERVER)], ())
   \<and> statusCode INTERNAL_SERVER = 500"
  by (simp add: loginUser_parse_throws sample_co_def malformed_login_def)

subsection \<open>C7: what a failed authentication tells the caller\<close>

text \<open>
  C7, as the specification states it: the error is identical whether the email was
  unknown or the password was wrong. The two errors handed to \<^verbatim>\<open>next\<close> differ: a login
  of an unknown email and a login of alice with a wrong password get different messages.
\<close>

theorem login_errors_differ:
  "next_errors (fst (loginUser sample_co no_row_services sample_env unknown_email_login ())) \<noteq>
   next_errors (fst (loginUser sample_co no_row_services sample_env wrong_password_login ()))"
  by (simp add: loginUser_def sample_co_def unknown_email_login_def wrong_password_login_def
      alice_def)

text \<open>
  C7, amended: a failed authentication surfaces with the status \<^verbatim>\<open>BAD_REQUEST\<close> in both
  cases, and with a message that tells them apart: \<^verbatim>\<open>User does not exist\<close> when no user
  has the email, \<^verbatim>\<open>Email or Password is incorrect\<close> when the password check fails.
\<close>

theorem login_credential_errors:
  "loginSchema_parse co (req_body req) = Inr (email, password) \<Longrightarrow>
   (getUserByEmail co email = Inr None \<longrightarrow>
      next_errors (fst (loginUser co sv e req s)) =
        [AppError ''User does not exist'' BAD_REQUEST]) \<and>
   (getUserByEmail co email = Inr (Some user) \<and>
    checkPassword co password (user_password user) = Inr False \<longrightarrow>
      next_errors (fst (loginUser co sv e req s)) =
        [AppError ''Email or Password is incorrect'' BAD_REQUEST])"
  by (simp add: loginUser_def)

theorem login_credential_errors_witness:
  "next_errors (fst (loginUser sample_co no_row_services sample_env unknown_email_login ())) =
     [AppError ''User does not exist'' BAD_REQUEST] \<and>
   next_errors (fst (loginUser sample_co no_row_services sample_env wrong_password_login ())) =
     [AppError ''Email or Password is incorrect'' BAD_REQUEST]"
  using login_credential_errors
          [of sample_co unknown_email_login "''bob@example.com''" "''wonderland''"
              no_row_services sample_env "()" alice]
        login_credential_errors
          [of sample_co wrong_password_login "''alice@example.com''" "''looking-glass''"
              no_row_services sample_env "()" alice]
  by (simp add: sample_co_def unknown_email_login_def wrong_password_login_def alice_def)

subsection \<open>C8: the credentials on the console\<close>

text \<open>
  C8, as stated: every call of \<^verbatim>\<open>loginUser\<close> writes the submitted email and password to
  the console. A body that \<^verbatim>\<open>loginSchema.parse\<close> rejects never reaches the two
  \<^verbatim>\<open>console.log\<close> lines: the submitted email is not written, only the error is.
\<close>

theorem malformed_login_logs_no_credentials:
  "ConsoleLog ''email'' ''alice@example.com''
     \<notin> set (fst (loginUser sample_co no_row_services sample_env malformed_login ()))
   \<and> console_lines (fst (loginUser sample_co no_row_services sample_env malformed_login ())) = []"
  by (simp add: loginUser_def loginUser_catch_def sample_co_def malformed_login_def)

text \<open>
  C8, amended: for every call of \<^verbatim>\<open>loginUser\<close> whose body passes \<^verbatim>\<open>loginSchema.parse\<close>,
  the parsed email and the plaintext password are written to the console before the
  user is looked up and before the password is checked, whether the login then succeeds
  or fails: the first four effects are the parse, the two console lines and the lookup.
\<close>

theorem login_logs_credentials_first:
  "loginSchema_parse co (req_body req) = Inr (email, password) \<Longrightarrow>
   take 4 (fst (loginUser co sv e req s)) =
     [Call ''loginSchema.parse'', ConsoleLog ''email'' email, ConsoleLog ''password'' password,
      Call ''getUserByEmail'']"
  by (simp add: loginUser_def Let_def split: sum.split option.split prod.split bool.split)

theorem login_logs_credentials_first_witness:
  "take 4 (fst (loginUser sample_co no_row_services sample_env wrong_password_login ())) =
     [Call ''loginSchema.parse'', ConsoleLog ''email'' ''alice@example.com'',
      ConsoleLog ''password'' ''looking-glass'', Call ''getUserByEmail'']"
  using login_logs_credentials_first
          [of sample_co wrong_password_login "''alice@example.com''" "''looking-glass''"
              no_row_services sample_env "()"]
  by (simp add: sample_co_def wrong_password_login_def)

subsection \<open>C9: a refresh that gets no reply\<close>

text \<open>
  C9: in \<^verbatim>\<open>refreshTokenSets\<close>, when the token passes the reuse detection and
  \<^verbatim>\<open>replaceRefreshTokenUser\<close> resolves to a falsy value without throwing, the handler
  ends after that call. Its trace holds the collaborator calls and what the detector
  itself did on the response (\<open>evs\<close>) and nothing else: the handler sends no reply, sets
  no cookie and takes no error path.
\<close>

theorem refresh_falsy_update_no_reply:
  assumes "cookies_refreshToken req = Some token" and "token \<noteq> []"
    and "extractUser co token (jwt_refresh_secret e) = Inr decodedUser"
    and "refreshTokenReuseDetection sv s decodedUser token = (Inr False, evs, s1)"
    and "generateTokenSet co \<lparr>payload_id = payload_id decodedUser,
                         payload_email = payload_email decodedUser,
                         payload_role = payload_role decodedUser\<rparr> = Inr tokenSet"
    and "replaceRefreshTokenUser sv s1 (payload_id decodedUser) token (refreshToken tokenSet) =
           (Inr False, s2)"
  shows "refreshTokenSets co sv e req s =
           ([Call ''extractUser'', Call ''refreshTokenReuseDetection''] @ evs @
            [Call ''generateTokenSet'', Call ''replaceRefreshTokenUser''], s2)
         \<and> list_ex is_send (fst (refreshTokenSets co sv e req s)) = list_ex is_send evs
         \<and> list_ex is_error (fst (refreshTokenSets co sv e req s)) = list_ex is_error evs"
proof -
  have tr: "refreshTokenSets co sv e req s =
           ([Call ''extractUser'', Call ''refreshTokenReuseDetection''] @ evs @
            [Call ''generateTokenSet'', Call ''replaceRefreshTokenUser''], s2)"
    using assms by (simp add: refreshTokenSets_def)
  show ?thesis
    unfolding tr by simp
qed

theorem refresh_falsy_update_no_reply_witness:
  "refreshTokenSets sample_co no_row_services sample_env (with_cookie ''R0'') () =
     ([Call ''extractUser'', Call ''refreshTokenReuseDetection'', Call ''generateTokenSet'',
       Call ''replaceRefreshTokenUser''], ())
   \<and> \<not> list_ex is_send
         (fst (refreshTokenSets sample_co no_row_services sample_env (with_cookie ''R0'') ()))
   \<and> \<not> list_ex is_error
         (fst (refreshTokenSets sample_co no_row_services sample_env (with_cookie ''R0'') ()))"
  using refresh_falsy_update_no_reply
          [of "with_cookie ''R0''" "''R0''" sample_co sample_env alice_payload
              no_row_services "()" "[]" "()" "\<lparr>accessToken = ''A1'', refreshToken = ''R1''\<rparr>" "()"]
  by (simp add: with_cookie_def sample_co_def no_row_services_def)

subsection \<open>C10: logout clears the cookie first\<close>

text \<open>
  C10: \<^verbatim>\<open>logOut\<close> clears the \<^verbatim>\<open>refreshToken\<close> cookie as its first action, on every
  request: whatever the cookie, the collaborators and the store are, the first effect
  of the handler is \<^verbatim>\<open>res.clearCookie('refreshToken')\<close>. The requests that end in 401
  because no token was presented or a breach was detected are \<open>logOut_no_token\<close> and
  \<open>logOut_breach\<close> above.
\<close>

theorem logOut_clears_cookie_first:
  "take 1 (fst (logOut co sv e req s)) = [ClearCookie ''refreshToken'']"
  by (simp add: logOut_def Let_def split: sum.split prod.split bool.split)

end
